theory Spec2Isabelle
  imports Main "HOL-Library.List_Lexorder" "HOL-Library.Char_ord" "HOL-Library.Multiset"
begin

section \<open>Python values and exceptions\<close>

text \<open>
  The exceptions that the modelled code can raise. A function that may raise returns
  \<open>py_error + 'a\<close>, with \<open>Inl\<close> for the exception.
\<close>

datatype py_error =
    TypeError | ValueError | KeyError | AttributeError
  | FileExistsError | FileNotFoundError | IsADirectoryError | OSError
  | OtherError string

text \<open>What \<open>start\<close> can hand back to its caller: \<open>None\<close> or a boolean.\<close>

datatype py_value = PyNone | PyBool bool

fun truthy :: "py_value \<Rightarrow> bool" where
  "truthy PyNone = False"
| "truthy (PyBool b) = b"

section \<open>LoadPatients.py: natural sort\<close>

text \<open>
  File paths are strings over ASCII. A character outside ASCII is treated as a
  caseless symbol that is not a digit; the Unicode digit classes of Python's
  \<open>str.isdigit\<close> beyond \<open>0\<close> to \<open>9\<close> are outside this model.
\<close>

definition is_digit :: "char \<Rightarrow> bool" where
  "is_digit c = (c \<in> set ''0123456789'')"

definition digit_val :: "char \<Rightarrow> nat" where
  "digit_val c = (case map_of (zip ''0123456789'' [0, 1, 2, 3, 4, 5, 6, 7, 8, 9]) c of
                    Some d \<Rightarrow> d | None \<Rightarrow> 0)"

definition lower_char :: "char \<Rightarrow> char" where
  "lower_char c = (case map_of (zip ''ABCDEFGHIJKLMNOPQRSTUVWXYZ''
                                    ''abcdefghijklmnopqrstuvwxyz'') c of
                     Some l \<Rightarrow> l | None \<Rightarrow> c)"

definition upper_char :: "char \<Rightarrow> char" where
  "upper_char c = (case map_of (zip ''abcdefghijklmnopqrstuvwxyz''
                                    ''ABCDEFGHIJKLMNOPQRSTUVWXYZ'') c of
                     Some u \<Rightarrow> u | None \<Rightarrow> c)"

text \<open>\<open>text.lower()\<close> and \<open>text.upper()\<close>.\<close>

definition lower :: "string \<Rightarrow> string" where
  "lower text = map lower_char text"

definition upper :: "string \<Rightarrow> string" where
  "upper text = map upper_char text"

text \<open>\<open>text.isdigit()\<close>: false on the empty string.\<close>

definition isdigit :: "string \<Rightarrow> bool" where
  "isdigit text = (text \<noteq> [] \<and> list_all is_digit text)"

text \<open>\<open>int(text)\<close> on a string of decimal digits.\<close>

definition int_of_digits :: "string \<Rightarrow> nat" where
  "int_of_digits text = foldl (\<lambda>n c. 10 * n + digit_val c) 0 text"

text \<open>
  \<open>re.split('([0-9]+)', key)\<close>: the text before the first digit, then, while a digit
  is left, the longest run of digits and the text up to the next digit. The pattern has a
  capturing group, so the digit runs are kept; the list starts and ends with a piece of
  text, which may be empty.
\<close>

function re_split_digits :: "string \<Rightarrow> string list" where
  "re_split_digits s =
     (let text = takeWhile (\<lambda>c. \<not> is_digit c) s;
          rest = dropWhile (\<lambda>c. \<not> is_digit c) s
      in if rest = [] then [text]
         else text # takeWhile is_digit rest # re_split_digits (dropWhile is_digit rest))"
  by pat_completeness auto
termination
proof (relation "measure length")
  show "wf (measure length)" by simp
next
  fix s :: string and x xa
  assume x: "x = takeWhile (\<lambda>c. \<not> is_digit c) s"
    and xa: "xa = dropWhile (\<lambda>c. \<not> is_digit c) s" and ne: "xa \<noteq> []"
  have "length (dropWhile is_digit xa) < length xa"
  proof (cases xa)
    case Nil
    with ne show ?thesis by simp
  next
    case (Cons c cs)
    have "is_digit (hd xa)"
      using ne hd_dropWhile [of "\<lambda>c. \<not> is_digit c" s] xa by auto
    with Cons have "dropWhile is_digit xa = dropWhile is_digit cs" by simp
    then show ?thesis
      using Cons length_dropWhile_le [of is_digit cs] by simp
  qed
  also have "length xa \<le> length s"
    using xa length_dropWhile_le by blast
  finally show "(dropWhile is_digit xa, s) \<in> measure length" by simp
qed

declare re_split_digits.simps [simp del]

text \<open>The elements of a sort key: \<open>int\<close> for a digit run, \<open>str\<close> for text.\<close>

datatype chunk = CInt nat | CStr string

text \<open>\<open>convert = lambda text: int(text) if text.isdigit() else text.lower()\<close>\<close>

definition convert :: "string \<Rightarrow> chunk" where
  "convert text = (if isdigit text then CInt (int_of_digits text) else CStr (lower text))"

text \<open>\<open>alphanum_key = lambda key: [convert(c) for c in re.split('([0-9]+)', key)]\<close>\<close>

definition alphanum_key :: "string \<Rightarrow> chunk list" where
  "alphanum_key key = map convert (re_split_digits key)"

text \<open>
  An order on the elements of a key, for the proofs about sorting: it is Python's order
  on two \<open>int\<close> and on two \<open>str\<close>. Python has no order between an \<open>int\<close> and a
  \<open>str\<close>; here the \<open>int\<close> is put first, and the keys of the code never meet that case.
\<close>

instantiation chunk :: linorder
begin

fun less_eq_chunk :: "chunk \<Rightarrow> chunk \<Rightarrow> bool" where
  "less_eq_chunk (CInt a) (CInt b) = (a \<le> b)"
| "less_eq_chunk (CStr a) (CStr b) = (a \<le> b)"
| "less_eq_chunk (CInt a) (CStr b) = True"
| "less_eq_chunk (CStr a) (CInt b) = False"

definition less_chunk :: "chunk \<Rightarrow> chunk \<Rightarrow> bool" where
  "less_chunk x y = (x \<le> y \<and> \<not> y \<le> x)"

instance
proof
  fix x y z :: chunk
  show "(x < y) = (x \<le> y \<and> \<not> y \<le> x)" by (simp add: less_chunk_def)
  show "x \<le> x" by (cases x) simp_all
  show "x \<le> y \<Longrightarrow> y \<le> z \<Longrightarrow> x \<le> z" by (cases x; cases y; cases z) auto
  show "x \<le> y \<Longrightarrow> y \<le> x \<Longrightarrow> x = y" by (cases x; cases y) auto
  show "x \<le> y \<or> y \<le> x" by (cases x; cases y) auto
qed

end

text \<open>
  Python's \<open><\<close>: on two \<open>str\<close> the lexicographic order of the code points, on two
  \<open>int\<close> the order of the numbers, and a \<open>TypeError\<close> between an \<open>int\<close> and a \<open>str\<close>.
\<close>

fun str_lt :: "string \<Rightarrow> string \<Rightarrow> bool" where
  "str_lt [] [] = False"
| "str_lt [] (y # ys) = True"
| "str_lt (x # xs) [] = False"
| "str_lt (x # xs) (y # ys) =
     (if x = y then str_lt xs ys else (of_char x :: nat) < of_char y)"

fun chunk_lt :: "chunk \<Rightarrow> chunk \<Rightarrow> py_error + bool" where
  "chunk_lt (CInt a) (CInt b) = Inr (a < b)"
| "chunk_lt (CStr a) (CStr b) = Inr (str_lt a b)"
| "chunk_lt (CInt a) (CStr b) = Inl TypeError"
| "chunk_lt (CStr a) (CInt b) = Inl TypeError"

text \<open>
  \<open><\<close> on two lists: the first pair of elements that are not equal decides; when there
  is none, the shorter list is the smaller.
\<close>

fun list_lt :: "chunk list \<Rightarrow> chunk list \<Rightarrow> py_error + bool" where
  "list_lt [] [] = Inr False"
| "list_lt [] (y # ys) = Inr True"
| "list_lt (x # xs) [] = Inr False"
| "list_lt (x # xs) (y # ys) = (if x = y then list_lt xs ys else chunk_lt x y)"

text \<open>
  \<open>sorted(file_list, key=alphanum_key)\<close>. Python's sort is stable and compares the keys
  with \<open><\<close> only; a comparison that raises ends the sort. The result of a stable sort
  does not depend on the algorithm, so insertion from the right stands for it: an element
  goes in front of the first one that is not smaller than it.
\<close>

fun insort_natural :: "string \<Rightarrow> string list \<Rightarrow> py_error + string list" where
  "insort_natural x [] = Inr [x]"
| "insort_natural x (y # ys) =
     (case list_lt (alphanum_key y) (alphanum_key x) of
        Inl e \<Rightarrow> Inl e
      | Inr True \<Rightarrow> (case insort_natural x ys of Inl e \<Rightarrow> Inl e | Inr zs \<Rightarrow> Inr (y # zs))
      | Inr False \<Rightarrow> Inr (x # y # ys))"

fun natural_sort :: "string list \<Rightarrow> py_error + string list" where
  "natural_sort [] = Inr []"
| "natural_sort (x # xs) =
     (case natural_sort xs of Inl e \<Rightarrow> Inl e | Inr ys \<Rightarrow> insort_natural x ys)"

section \<open>LoadPatients.py: discovery\<close>

text \<open>
  What the codec hands back for a file that it can read. Reading an attribute that the
  file does not carry raises \<open>AttributeError\<close>, so both fields are optional.
\<close>

record Dataset =
  Modality :: "string option"
  PatientID :: "string option"

text \<open>A key of the two dictionaries: an \<open>int\<close> for a CT image, a \<open>str\<close> otherwise.\<close>

datatype key = IntKey nat | StrKey string

text \<open>
  The directory as the function sees it: \<open>glob\<close> is the list that
  \<open>glob.glob(path + '/*')\<close> returns, \<open>isfile\<close> is \<open>os.path.isfile\<close>, and \<open>dcmread\<close> is
  \<open>pydicom.dcmread\<close>, with \<open>None\<close> when it raises.
\<close>

record disk =
  glob :: "string \<Rightarrow> string list"
  isfile :: "string \<Rightarrow> bool"
  dcmread :: "string \<Rightarrow> Dataset option"

text \<open>\<open>os.path.basename\<close>: what follows the last slash.\<close>

definition basename :: "string \<Rightarrow> string" where
  "basename file = rev (takeWhile (\<lambda>c. c \<noteq> CHR ''/'') (rev file))"

text \<open>The local variables of \<open>get_datasets\<close>, and what it has printed.\<close>

record discovery =
  read_data_dict :: "key \<rightharpoonup> Dataset"
  file_names_dict :: "key \<rightharpoonup> string"
  next_i :: nat
  printed :: "string list"

text \<open>The condition of the \<open>if\<close> on line 51.\<close>

definition candidate :: "disk \<Rightarrow> string \<Rightarrow> bool" where
  "candidate d file =
     (isfile d file \<and>
      upper (take 2 (basename file)) \<in> set [''CT'', ''RD'', ''RP'', ''RS'', ''RT''])"

text \<open>The \<open>else\<close> branch of the \<open>try\<close>: the file was read, its modality decides.\<close>

definition store_file :: "string \<Rightarrow> Dataset \<Rightarrow> string \<Rightarrow> discovery \<Rightarrow> discovery" where
  "store_file file read_file m st =
     (if m = ''CT'' then
        st\<lparr>read_data_dict := (read_data_dict st)(IntKey (next_i st) \<mapsto> read_file),
           file_names_dict := (file_names_dict st)(IntKey (next_i st) \<mapsto> file),
           next_i := next_i st + 1\<rparr>
      else if m = ''RTSTRUCT'' then
        st\<lparr>read_data_dict := (read_data_dict st)(StrKey ''rtss'' \<mapsto> read_file),
           file_names_dict := (file_names_dict st)(StrKey ''rtss'' \<mapsto> file)\<rparr>
      else if m = ''RTDOSE'' then
        st\<lparr>read_data_dict := (read_data_dict st)(StrKey ''rtdose'' \<mapsto> read_file),
           file_names_dict := (file_names_dict st)(StrKey ''rtdose'' \<mapsto> file)\<rparr>
      else if m = ''RTPLAN'' then
        st\<lparr>read_data_dict := (read_data_dict st)(StrKey ''rtplan'' \<mapsto> read_file),
           file_names_dict := (file_names_dict st)(StrKey ''rtplan'' \<mapsto> file)\<rparr>
      else st)"

text \<open>The loop over the sorted files.\<close>

fun for_files :: "disk \<Rightarrow> string list \<Rightarrow> discovery \<Rightarrow> py_error + discovery" where
  "for_files d [] st = Inr st"
| "for_files d (file # dcm_files) st =
     (if candidate d file then
        (case dcmread d file of
           None \<Rightarrow>
             for_files d dcm_files
               (st\<lparr>printed := printed st @ [''ERROR: Cannot read file '' @ file]\<rparr>)
         | Some read_file \<Rightarrow>
             (case Modality read_file of
                None \<Rightarrow> Inl AttributeError
              | Some m \<Rightarrow> for_files d dcm_files (store_file file read_file m st)))
      else for_files d dcm_files st)"

definition get_datasets :: "disk \<Rightarrow> string \<Rightarrow> py_error + discovery" where
  "get_datasets d path =
     (case natural_sort (glob d path) of
        Inl e \<Rightarrow> Inl e
      | Inr dcm_files \<Rightarrow>
          for_files d dcm_files
            \<lparr>read_data_dict = Map.empty, file_names_dict = Map.empty, next_i = 0,
             printed = [''Natural Sorting...'']\<rparr>)"

section \<open>BatchProcessDVH2CSV.py: the CSV writer\<close>

text \<open>
  A DVH record as \<open>dvh2csv\<close> reads it: \<open>dvh.name\<close>, \<open>dvh.volume\<close> and
  \<open>dvh.relative_volume.counts\<close>. The type \<open>'v\<close> stands for the floating-point numbers,
  which the code moves around and hands to pandas but never computes with. A count that
  is the float NaN, which pandas would treat as a missing cell, is outside the model.
\<close>

record 'v dvh =
  dvh_name :: string
  dvh_volume :: 'v
  dvh_counts :: "'v list"

text \<open>A cell of a data frame or of the CSV file: text, a number, or missing.\<close>

datatype 'v cell = Str string | Num 'v | NaN

text \<open>A path is the list of its components; \<open>Path.joinpath\<close> adds one.\<close>

type_synonym path = "string list"

definition joinpath :: "path \<Rightarrow> string \<Rightarrow> path" where
  "joinpath p c = p @ [c]"

text \<open>The output file system: a directory, or a CSV file as the list of its rows.\<close>

datatype 'v node = Dir | File "'v cell list list"

type_synonym 'v filesystem = "path \<rightharpoonup> 'v node"

definition os_path_isfile :: "'v filesystem \<Rightarrow> path \<Rightarrow> bool" where
  "os_path_isfile fs p = (case fs p of Some (File rows) \<Rightarrow> True | _ \<Rightarrow> False)"

definition os_path_isdir :: "'v filesystem \<Rightarrow> path \<Rightarrow> bool" where
  "os_path_isdir fs p = (fs p = Some Dir)"

text \<open>\<open>os.mkdir\<close> raises when the path exists or when its parent is not a directory.\<close>

definition os_mkdir :: "'v filesystem \<Rightarrow> path \<Rightarrow> py_error + 'v filesystem" where
  "os_mkdir fs p =
     (if fs p \<noteq> None then Inl FileExistsError
      else if \<not> os_path_isdir fs (butlast p) then Inl FileNotFoundError
      else Inr (fs(p \<mapsto> Dir)))"

text \<open>\<open>range(0, stop, step)\<close>\<close>

definition py_range :: "nat \<Rightarrow> nat \<Rightarrow> nat list" where
  "py_range stop step = map (\<lambda>k. k * step) [0..<(stop + step - 1) div step]"

text \<open>\<open>str(i)\<close> for a number that is not negative.\<close>

fun str_nat :: "nat \<Rightarrow> string" where
  "str_nat n =
     (if n < 10 then [''0123456789'' ! n]
      else str_nat (n div 10) @ [''0123456789'' ! (n mod 10)])"

text \<open>
  The inner loop, lines 150 to 155: the row grows by every tenth count, and the running
  maximum follows the index.
\<close>

definition sample_loop :: "'v list \<Rightarrow> 'v cell list \<times> nat \<Rightarrow> 'v cell list \<times> nat" where
  "sample_loop dose st =
     foldl (\<lambda>(dvh_roi_list, max_roi_dose) i.
              (dvh_roi_list @ [Num (dose ! i)],
               if i > max_roi_dose then i else max_roi_dose))
       st (py_range (length dose) 10)"

text \<open>
  The outer loop, lines 140 to 157. The dictionary is the list of its items in insertion
  order, with distinct keys, so \<open>dict_dvh[i]\<close> is the value paired with \<open>i\<close>.
\<close>

definition roi_loop ::
  "string \<Rightarrow> (nat \<times> 'v dvh) list \<Rightarrow> 'v cell list list \<times> nat" where
  "roi_loop patient_id dict_dvh =
     foldl (\<lambda>(dvh_csv_list, max_roi_dose) (i, dvh).
              (let (dvh_roi_list, m) =
                     sample_loop (dvh_counts dvh)
                       ([Str patient_id, Str (dvh_name dvh), Num (dvh_volume dvh)],
                        max_roi_dose)
               in (dvh_csv_list @ [dvh_roi_list], m)))
       ([], 0) dict_dvh"

text \<open>Lines 133 to 136 and 159 to 160.\<close>

definition csv_header :: "nat \<Rightarrow> string list" where
  "csv_header max_roi_dose =
     [''Patient ID'', ''ROI'', ''Volume (mL)''] @
     map (\<lambda>i. str_nat i @ ''cGy'') (py_range (max_roi_dose + 1) 10)"

text \<open>
  \<open>pd.DataFrame(data, columns=...)\<close> on a list of rows: pandas fills the short rows with
  missing cells up to the longest row, and raises \<open>ValueError\<close> when the number of column
  names is not the length of the longest row. No rows give an empty frame.
\<close>

record 'v frame =
  columns :: "string list"
  frame_rows :: "'v cell list list"

definition DataFrame :: "'v cell list list \<Rightarrow> string list \<Rightarrow> py_error + 'v frame" where
  "DataFrame data cols =
     (if data = [] then Inr \<lparr>columns = cols, frame_rows = []\<rparr>
      else
        (let width = foldr max (map length data) 0
         in if length cols \<noteq> width then Inl ValueError
            else Inr \<lparr>columns = cols,
                      frame_rows = map (\<lambda>row. row @ replicate (width - length row) NaN) data\<rparr>))"

text \<open>
  \<open>.round(2)\<close> rounds the numbers and leaves text and missing cells; the rounding of
  pandas is the parameter \<open>round2\<close>. \<open>.fillna(0.0)\<close> puts \<open>zero\<close>, the float \<open>0.0\<close>, in the
  missing cells.
\<close>

fun round_cell :: "('v \<Rightarrow> 'v) \<Rightarrow> 'v cell \<Rightarrow> 'v cell" where
  "round_cell round2 (Num x) = Num (round2 x)"
| "round_cell round2 c = c"

fun fill_cell :: "'v \<Rightarrow> 'v cell \<Rightarrow> 'v cell" where
  "fill_cell zero NaN = Num zero"
| "fill_cell zero c = c"

definition round_frame :: "('v \<Rightarrow> 'v) \<Rightarrow> 'v frame \<Rightarrow> 'v frame" where
  "round_frame round2 df = df\<lparr>frame_rows := map (map (round_cell round2)) (frame_rows df)\<rparr>"

definition fillna :: "'v \<Rightarrow> 'v frame \<Rightarrow> 'v frame" where
  "fillna zero df = df\<lparr>frame_rows := map (map (fill_cell zero)) (frame_rows df)\<rparr>"

text \<open>
  \<open>to_csv(tar_path, mode='a', header=create_header)\<close>: the index column
  \<open>Patient ID\<close> is written first, so a line has the cells in the order of the columns.
  Opening a directory raises, as does a missing parent directory.
\<close>

definition to_csv ::
  "'v frame \<Rightarrow> 'v filesystem \<Rightarrow> path \<Rightarrow> bool \<Rightarrow> py_error + 'v filesystem" where
  "to_csv df fs tar_path header =
     (let lines = (if header then [map Str (columns df)] else []) @ frame_rows df
      in case fs tar_path of
           Some Dir \<Rightarrow> Inl IsADirectoryError
         | Some (File old) \<Rightarrow> Inr (fs(tar_path \<mapsto> File (old @ lines)))
         | None \<Rightarrow>
             if os_path_isdir fs (butlast tar_path) then Inr (fs(tar_path \<mapsto> File lines))
             else Inl OSError)"

definition dvh2csv ::
  "('v \<Rightarrow> 'v) \<Rightarrow> 'v \<Rightarrow> (nat \<times> 'v dvh) list \<Rightarrow> path \<Rightarrow> string \<Rightarrow> string \<Rightarrow>
   'v filesystem \<Rightarrow> py_error + 'v filesystem" where
  "dvh2csv round2 zero dict_dvh path csv_name patient_id fs =
     (let tar_path = joinpath path csv_name;
          create_header = (\<not> os_path_isfile fs tar_path);
          (dvh_csv_list, max_roi_dose) = roi_loop patient_id dict_dvh
      in case DataFrame dvh_csv_list (csv_header max_roi_dose) of
           Inl e \<Rightarrow> Inl e
         | Inr pddf_csv \<Rightarrow>
             to_csv (fillna zero (round_frame round2 pddf_csv)) fs tar_path create_header)"

section \<open>BatchProcessDVH2CSV.py: the export job\<close>

text \<open>
  Modelled from the spec: the class \<open>PatientDictContainer\<close>, the Shared Dataset Store.
  It holds the datasets of the loaded patient by key and further data by name; \<open>get\<close>
  returns the stored value or a not-found signal; \<open>clear\<close> empties the store.
\<close>

record 'r PatientDictContainer =
  dataset :: "key \<rightharpoonup> Dataset"
  additional_data :: "string \<rightharpoonup> 'r"

definition clear :: "'r PatientDictContainer \<Rightarrow> 'r PatientDictContainer" where
  "clear c = \<lparr>dataset = Map.empty, additional_data = Map.empty\<rparr>"

definition is_empty :: "'r PatientDictContainer \<Rightarrow> bool" where
  "is_empty c = (dataset c = Map.empty \<and> additional_data c = Map.empty)"

definition get :: "'r PatientDictContainer \<Rightarrow> string \<Rightarrow> 'r option" where
  "get c keyword = additional_data c keyword"

text \<open>
  The fields of the job that \<open>start\<close> reads. \<open>ready\<close> is what \<open>load_images\<close> returned in
  the constructor: whether both required classes, \<open>rtss\<close> and \<open>rtdose\<close>, were found.
\<close>

record job =
  ready :: bool
  output_path :: path
  filename :: string

text \<open>
  What the job meets while it runs. The interrupt flag is an event that another thread
  sets, so each of the two polls has its own answer. The two functions of \<open>ImageLoading\<close>
  and the arithmetic of pandas are parameters.
\<close>

record ('v, 'r, 't) env =
  is_set_first :: bool
  is_set_second :: bool
  get_thickness_dict :: "Dataset \<Rightarrow> (key \<rightharpoonup> Dataset) \<Rightarrow> py_error + 't"
  calc_dvhs :: "Dataset \<Rightarrow> Dataset \<Rightarrow> 'r option \<Rightarrow> 't \<Rightarrow> py_error + (nat \<times> 'v dvh) list"
  round2 :: "'v \<Rightarrow> 'v"
  zero :: 'v

text \<open>
  What the job can change: the store, the files, the progress reports it has emitted and
  the lines it has printed.
\<close>

record ('v, 'r) world =
  patient_dict_container :: "'r PatientDictContainer"
  files :: "'v filesystem"
  progress :: "(string \<times> nat) list"
  stdout :: "string list"

definition emit :: "string \<times> nat \<Rightarrow> ('v, 'r) world \<Rightarrow> ('v, 'r) world" where
  "emit report w = w\<lparr>progress := progress w @ [report]\<rparr>"

definition print :: "string \<Rightarrow> ('v, 'r) world \<Rightarrow> ('v, 'r) world" where
  "print line w = w\<lparr>stdout := stdout w @ [line]\<rparr>"

text \<open>The two branches that stop the job, lines 57 to 61 and 94 to 98.\<close>

definition stopped :: "('v, 'r) world \<Rightarrow> (py_error + py_value) \<times> ('v, 'r) world" where
  "stopped w =
     (Inr (PyBool False),
      (print ''Stopped DVH2CSV'' w)
        \<lparr>patient_dict_container := clear (patient_dict_container w)\<rparr>)"

text \<open>The body of the \<open>try\<close>, lines 81 to 87.\<close>

definition try_calc ::
  "('v, 'r, 't) env \<Rightarrow> Dataset \<Rightarrow> Dataset \<Rightarrow> 'r option \<Rightarrow> (key \<rightharpoonup> Dataset) \<Rightarrow>
   py_error + (nat \<times> 'v dvh) list" where
  "try_calc e dataset_rtss dataset_rtdose rois datasets =
     (case get_thickness_dict e dataset_rtss datasets of
        Inl err \<Rightarrow> Inl err
      | Inr dict_thickness \<Rightarrow> calc_dvhs e dataset_rtss dataset_rtdose rois dict_thickness)"

text \<open>Lines 100 to 114: the export, up to the end of \<open>start\<close>.\<close>

definition export ::
  "job \<Rightarrow> ('v, 'r, 't) env \<Rightarrow> Dataset \<Rightarrow> (nat \<times> 'v dvh) list \<Rightarrow> ('v, 'r) world \<Rightarrow>
   (py_error + py_value) \<times> ('v, 'r) world" where
  "export self e dataset_rtss raw_dvh w0 =
     (let w = emit (''Exporting DVH to CSV...'', 90) w0;
          path = joinpath (output_path self) ''CSV''
      in case PatientID dataset_rtss of
           None \<Rightarrow> (Inl AttributeError, w)
         | Some patient_id \<Rightarrow>
             (case (if \<not> os_path_isdir (files w) path then os_mkdir (files w) path
                    else Inr (files w)) of
                Inl err \<Rightarrow> (Inl err, w)
              | Inr fs \<Rightarrow>
                  (case dvh2csv (round2 e) (zero e) raw_dvh path (filename self) patient_id fs of
                     Inl err \<Rightarrow> (Inl err, w\<lparr>files := fs\<rparr>)
                   | Inr fs' \<Rightarrow> (Inr PyNone, w\<lparr>files := fs'\<rparr>))))"

definition start ::
  "job \<Rightarrow> ('v, 'r, 't) env \<Rightarrow> ('v, 'r) world \<Rightarrow> (py_error + py_value) \<times> ('v, 'r) world" where
  "start self e w0 =
     (if is_set_first e then stopped w0
      else if \<not> ready self then (Inr PyNone, w0)
      else
        (let w = emit (''Calculating DVH...'', 60) (emit (''Checking dataset...'', 40) w0);
             read_data_dict = dataset (patient_dict_container w)
         in case read_data_dict (StrKey ''rtss'') of
              None \<Rightarrow> (Inl KeyError, w)
            | Some dataset_rtss \<Rightarrow>
                (case read_data_dict (StrKey ''rtdose'') of
                   None \<Rightarrow> (Inl KeyError, w)
                 | Some dataset_rtdose \<Rightarrow>
                     (let rois = get (patient_dict_container w) ''rois''
                      in case try_calc e dataset_rtss dataset_rtdose rois read_data_dict of
                           Inl err \<Rightarrow>
                             if err = TypeError then
                               (Inr PyNone,
                                print (''Error when calculating ROI thickness. The dataset may be ''
                                       @ ''incomplete. \<newline>Skipping DVH2CSV.'') w)
                             else (Inl err, w)
                         | Inr raw_dvh \<Rightarrow>
                             if is_set_second e then stopped w
                             else export self e dataset_rtss raw_dvh w))))"

text \<open>\<open>set_filename\<close>\<close>

definition set_filename :: "job \<Rightarrow> string \<Rightarrow> job" where
  "set_filename self name =
     (if name \<noteq> [] then self\<lparr>filename := name\<rparr> else self\<lparr>filename := ''DVHs_.csv''\<rparr>)"

section \<open>The CSV layout in the words of the specification\<close>

text \<open>
  The counts of a record at the positions 0, 10, 20 and so on; the largest number of such
  samples over the records of one call; the dose labels \<open>0cGy\<close>, \<open>10cGy\<close> and so on for a
  number of columns; and the data row of a record for a number of dose columns, with
  rounded numbers and \<open>0.0\<close> in the cells that the record does not fill.
\<close>

definition stride10 :: "'a list \<Rightarrow> 'a list" where
  "stride10 xs = map (\<lambda>k. xs ! (10 * k)) [0..<(length xs + 9) div 10]"

definition max_samples :: "(nat \<times> 'v dvh) list \<Rightarrow> nat" where
  "max_samples dict_dvh =
     foldr max (map (\<lambda>(i, dvh). length (stride10 (dvh_counts dvh))) dict_dvh) 0"

definition dose_labels :: "nat \<Rightarrow> string list" where
  "dose_labels n = map (\<lambda>k. str_nat (10 * k) @ ''cGy'') [0..<n]"

definition csv_row :: "('v \<Rightarrow> 'v) \<Rightarrow> 'v \<Rightarrow> string \<Rightarrow> nat \<Rightarrow> 'v dvh \<Rightarrow> 'v cell list" where
  "csv_row rnd z patient_id n dvh =
     [Str patient_id, Str (dvh_name dvh), Num (rnd (dvh_volume dvh))] @
     map (\<lambda>x. Num (rnd x)) (stride10 (dvh_counts dvh)) @
     replicate (n - length (stride10 (dvh_counts dvh))) (Num z)"

definition csv_rows ::
  "('v \<Rightarrow> 'v) \<Rightarrow> 'v \<Rightarrow> string \<Rightarrow> (nat \<times> 'v dvh) list \<Rightarrow> 'v cell list list" where
  "csv_rows rnd z patient_id dict_dvh =
     map (\<lambda>(i, dvh). csv_row rnd z patient_id (max_samples dict_dvh) dvh) dict_dvh"

definition header_line :: "nat \<Rightarrow> 'v cell list" where
  "header_line n = map Str ([''Patient ID'', ''ROI'', ''Volume (mL)''] @ dose_labels n)"

text \<open>A row as the loops build it, before pandas pads, rounds and fills it.\<close>

definition raw_row :: "string \<Rightarrow> 'v dvh \<Rightarrow> 'v cell list" where
  "raw_row patient_id dvh =
     [Str patient_id, Str (dvh_name dvh), Num (dvh_volume dvh)] @
     map Num (stride10 (dvh_counts dvh))"

section \<open>The natural order in the words of the specification\<close>

text \<open>
  A string is cut into its maximal runs of digits and of other characters, which
  alternate. Two strings are compared run by run: two runs of digits by their numbers,
  two runs of text without regard to case, the first pair that differs decides, and a
  sequence of runs that is a strict prefix of the other comes first. The specification
  does not say how a run of digits compares with a run of text; that is \<open>None\<close> here.
\<close>

datatype run = Digits string | Text string








text \<open>A key whose elements are in turn \<open>str\<close> and \<open>int\<close>, from a \<open>str\<close> or from an \<open>int\<close>.\<close>

fun str_first :: "chunk list \<Rightarrow> bool"
  and int_first :: "chunk list \<Rightarrow> bool" where
  "str_first [] = True"
| "str_first (CStr t # cs) = int_first cs"
| "str_first (CInt n # cs) = False"
| "int_first [] = True"
| "int_first (CInt n # cs) = str_first cs"
| "int_first (CStr t # cs) = False"



section \<open>Discovery in the words of the specification\<close>

text \<open>
  A file that discovery inspects and the codec reads with the given modality; a file that
  discovery inspects and the codec cannot read; and the modality that each of the three
  labels stands for.
\<close>

definition accepted :: "disk \<Rightarrow> string \<Rightarrow> string \<Rightarrow> bool" where
  "accepted d m file =
     (candidate d file \<and>
      (case dcmread d file of None \<Rightarrow> False | Some ds \<Rightarrow> Modality ds = Some m))"

definition unreadable :: "disk \<Rightarrow> string \<Rightarrow> bool" where
  "unreadable d file = (candidate d file \<and> dcmread d file = None)"

definition label_modality :: "string \<Rightarrow> string option" where
  "label_modality l =
     (if l = ''rtss'' then Some ''RTSTRUCT''
      else if l = ''rtdose'' then Some ''RTDOSE''
      else if l = ''rtplan'' then Some ''RTPLAN''
      else None)"

text \<open>The last file of a list, if there is one.\<close>

definition last_of :: "string list \<Rightarrow> string option" where
  "last_of fs = (if fs = [] then None else Some (last fs))"

text \<open>The \<open>k\<close>-th file of a list, if there is one.\<close>

definition nth_of :: "string list \<Rightarrow> nat \<Rightarrow> string option" where
  "nth_of fs k = (if k < length fs then Some (fs ! k) else None)"

section \<open>A sample patient\<close>

text \<open>
  One patient with a structure set and a dose file, two DVH records of 25 and 10 bins, and
  an output directory that exists. The theorems below are applied to these.
\<close>

definition sample_rtss :: Dataset where
  "sample_rtss = \<lparr>Modality = Some ''RTSTRUCT'', PatientID = Some ''P1''\<rparr>"

definition sample_rtdose :: Dataset where
  "sample_rtdose = \<lparr>Modality = Some ''RTDOSE'', PatientID = Some ''P1''\<rparr>"

definition sample_store :: "nat PatientDictContainer" where
  "sample_store =
     \<lparr>dataset = [StrKey ''rtss'' \<mapsto> sample_rtss, StrKey ''rtdose'' \<mapsto> sample_rtdose],
      additional_data = [''rois'' \<mapsto> 1]\<rparr>"

definition sample_dvh :: "(nat \<times> int dvh) list" where
  "sample_dvh =
     [(1, \<lparr>dvh_name = ''PTV'', dvh_volume = 51,
           dvh_counts = [100, 99, 98, 97, 96, 95, 94, 93, 92, 91, 90, 89, 88, 87, 86, 85, 84,
                         83, 82, 81, 80, 79, 78, 77, 76]\<rparr>),
      (2, \<lparr>dvh_name = ''CORD'', dvh_volume = 7,
           dvh_counts = [60, 59, 58, 57, 56, 55, 54, 53, 52, 51]\<rparr>)]"

definition sample_env ::
  "bool \<Rightarrow> bool \<Rightarrow> py_error + (nat \<times> int dvh) list \<Rightarrow> (int, nat, unit) env" where
  "sample_env first second outcome =
     \<lparr>is_set_first = first, is_set_second = second,
      get_thickness_dict = (\<lambda>rtss datasets. Inr ()),
      calc_dvhs = (\<lambda>rtss rtdose rois thickness. outcome),
      round2 = (\<lambda>x. x), zero = 0\<rparr>"

definition sample_world :: "(int, nat) world" where
  "sample_world =
     \<lparr>patient_dict_container = sample_store, files = [[''out''] \<mapsto> Dir],
      progress = [], stdout = []\<rparr>"

definition sample_job :: "bool \<Rightarrow> job" where
  "sample_job r = \<lparr>ready = r, output_path = [''out''], filename = ''DVHs_.csv''\<rparr>"

text \<open>
  For the CSV writer alone: the output directory with its \<open>CSV\<close> folder, numbers in
  thousandths with a rounding to hundredths, a mapping whose only record has no bins, and
  the CSV file after a first export of the sample records.
\<close>

definition sample_files :: "int filesystem" where
  "sample_files = [[''out''] \<mapsto> Dir, [''out'', ''CSV''] \<mapsto> Dir]"

definition sample_round :: "int \<Rightarrow> int" where
  "sample_round x = (x + 5) div 10 * 10"


definition sample_head :: "int cell list" where
  "sample_head = [Str ''Patient ID'', Str ''ROI'', Str ''Volume (mL)'',
                  Str ''0cGy'', Str ''10cGy'', Str ''20cGy'']"

definition sample_rows :: "int cell list list" where
  "sample_rows = [[Str ''P1'', Str ''PTV'', Num 50, Num 100, Num 90, Num 80],
                  [Str ''P1'', Str ''CORD'', Num 10, Num 60, Num 0, Num 0]]"

definition sample_csv :: "int cell list list" where
  "sample_csv = sample_head # sample_rows"

text \<open>
  A directory for discovery: four files with the modality CT, one of them named out of
  order, one file named as a CT image that holds an MR image, two structure sets, a dose
  file, a plan, a file that the codec cannot read, and a text file.
\<close>

definition sample_listing :: "string list" where
  "sample_listing =
     [''d/CT1.dcm'', ''d/CT10.dcm'', ''d/CT2.dcm'', ''d/RS2.dcm'', ''d/RS1.dcm'',
      ''d/RD1.dcm'', ''d/RP1.dcm'', ''d/CT5bad.dcm'', ''d/notes.txt'', ''d/CT9.dcm'']"

definition sample_sorted :: "string list" where
  "sample_sorted =
     [''d/CT1.dcm'', ''d/CT2.dcm'', ''d/CT5bad.dcm'', ''d/CT9.dcm'', ''d/CT10.dcm'',
      ''d/notes.txt'', ''d/RD1.dcm'', ''d/RP1.dcm'', ''d/RS1.dcm'', ''d/RS2.dcm'']"

definition sample_modality :: "string \<Rightarrow> string" where
  "sample_modality file =
     (if file = ''d/CT9.dcm'' then ''MR''
      else if take 4 file = ''d/CT'' then ''CT''
      else if take 4 file = ''d/RS'' then ''RTSTRUCT''
      else if take 4 file = ''d/RD'' then ''RTDOSE''
      else ''RTPLAN'')"

definition sample_disk :: disk where
  "sample_disk =
     \<lparr>glob = (\<lambda>path. if path = ''d'' then sample_listing else []),
      isfile = (\<lambda>file. True),
      dcmread = (\<lambda>file. if file = ''d/CT5bad.dcm'' then None
                         else Some \<lparr>Modality = Some (sample_modality file),
                                    PatientID = Some ''P1''\<rparr>)\<rparr>"

section \<open>Properties of the export job\<close>

lemmas sample_defs =
  sample_job_def sample_env_def sample_world_def sample_store_def sample_dvh_def
  sample_rtss_def sample_rtdose_def

lemma emit_fields [simp]:
  "patient_dict_container (emit r w) = patient_dict_container w"
  "files (emit r w) = files w"
  "stdout (emit r w) = stdout w"
  "progress (emit r w) = progress w @ [r]"
  by (simp_all add: emit_def)

lemma print_fields [simp]:
  "patient_dict_container (print l w) = patient_dict_container w"
  "files (print l w) = files w"
  "stdout (print l w) = stdout w @ [l]"
  "progress (print l w) = progress w"
  by (simp_all add: print_def)

lemma is_empty_clear [simp]: "is_empty (clear c)"
  by (simp add: is_empty_def clear_def)

lemma is_empty_dataset: "is_empty c \<Longrightarrow> dataset c k = None"
  by (simp add: is_empty_def)

lemma export_value: "fst (export self e rtss raw w) = Inr v \<Longrightarrow> v = PyNone"
  by (auto simp: export_def Let_def split: option.splits sum.splits if_splits)

lemma export_store:
  "patient_dict_container (snd (export self e rtss raw w)) = patient_dict_container w"
  by (auto simp: export_def Let_def split: option.splits sum.splits if_splits)

lemma export_progress:
  "progress (snd (export self e rtss raw w)) = progress w @ [(''Exporting DVH to CSV...'', 90)]"
  by (auto simp: export_def Let_def split: option.splits sum.splits if_splits)

lemma export_stdout: "stdout (snd (export self e rtss raw w)) = stdout w"
  by (auto simp: export_def Let_def split: option.splits sum.splits if_splits)

text \<open>
  C10: \<open>start\<close> never returns a truthy value. It returns \<open>False\<close> only where a poll of
  the interrupt flag answered yes; a job that is not ready and not cancelled returns
  \<open>None\<close>; a ready job that is not cancelled returns \<open>None\<close> when the computation
  raises \<open>TypeError\<close>, and \<open>None\<close> is also all that it can return otherwise, so also when
  the export is done. The caller reads the same \<open>None\<close> in the three cases.
\<close>

theorem start_never_truthy:
  "fst (start self e w) \<noteq> Inr (PyBool True) \<and>
   (fst (start self e w) = Inr (PyBool False) \<longrightarrow>
      is_set_first e \<or> (ready self \<and> is_set_second e)) \<and>
   (\<not> is_set_first e \<and> \<not> ready self \<longrightarrow> fst (start self e w) = Inr PyNone) \<and>
   (\<not> is_set_first e \<and> ready self \<and>
    dataset (patient_dict_container w) (StrKey ''rtss'') = Some rtss \<and>
    dataset (patient_dict_container w) (StrKey ''rtdose'') = Some rtdose \<and>
    try_calc e rtss rtdose (get (patient_dict_container w) ''rois'')
      (dataset (patient_dict_container w)) = Inl TypeError \<longrightarrow>
    fst (start self e w) = Inr PyNone) \<and>
   (\<not> is_set_first e \<and> ready self \<and> \<not> is_set_second e \<and>
    fst (start self e w) = Inr v \<longrightarrow> v = PyNone)"
  by (auto simp: start_def stopped_def Let_def dest: export_value
           split: option.splits sum.splits if_splits)

text \<open>
  The theorem on the sample patient: the run that exports returns \<open>None\<close>, and so do the
  run whose computation raises \<open>TypeError\<close> and the run of a job that is not ready.
\<close>

theorem start_never_truthy_witness:
  "fst (start (sample_job True) (sample_env False False (Inr sample_dvh)) sample_world)
     = Inr PyNone \<and>
   fst (start (sample_job True) (sample_env False False (Inl TypeError)) sample_world)
     = Inr PyNone \<and>
   fst (start (sample_job False) (sample_env False False (Inr sample_dvh)) sample_world)
     = Inr PyNone"
proof -
  let ?ok = "sample_env False False (Inr sample_dvh)"
  let ?bad = "sample_env False False (Inl TypeError) :: (int, nat, unit) env"
  have run: "fst (start (sample_job True) ?ok sample_world) = Inr PyNone"
    by code_simp
  have flags: "\<not> is_set_first ?ok" "\<not> is_set_second ?ok" "\<not> is_set_first ?bad"
    and r: "ready (sample_job True)" "\<not> ready (sample_job False)"
    by (simp_all add: sample_defs)
  have ds: "dataset (patient_dict_container sample_world) (StrKey ''rtss'') = Some sample_rtss"
    "dataset (patient_dict_container sample_world) (StrKey ''rtdose'') = Some sample_rtdose"
    by (simp_all add: sample_defs)
  have te: "try_calc ?bad sample_rtss sample_rtdose
              (get (patient_dict_container sample_world) ''rois'')
              (dataset (patient_dict_container sample_world)) = Inl TypeError"
    by (simp add: try_calc_def sample_env_def)
  from start_never_truthy [of "sample_job True" ?ok sample_world sample_rtss sample_rtdose PyNone]
    flags r run
  have "fst (start (sample_job True) ?ok sample_world) = Inr PyNone" by simp
  moreover
  from start_never_truthy [of "sample_job True" ?bad sample_world sample_rtss sample_rtdose]
    flags r ds te
  have "fst (start (sample_job True) ?bad sample_world) = Inr PyNone" by blast
  moreover
  from start_never_truthy [of "sample_job False" ?ok sample_world] flags r
  have "fst (start (sample_job False) ?ok sample_world) = Inr PyNone" by blast
  ultimately show ?thesis by simp
qed

text \<open>
  C7: when the interrupt flag is set at the call, \<open>start\<close> returns \<open>False\<close> without
  raising, prints the stopped notice, leaves the store empty and emits no progress report.
  When a ready job finds the flag set at the second poll, after the DVH computation has
  returned, the same holds, with the two reports emitted before the computation and none
  after it. No file is touched in either case.
\<close>

theorem start_cancelled:
  "(is_set_first e \<longrightarrow>
      fst (start self e w) = Inr (PyBool False) \<and>
      is_empty (patient_dict_container (snd (start self e w))) \<and>
      progress (snd (start self e w)) = progress w \<and>
      stdout (snd (start self e w)) = stdout w @ [''Stopped DVH2CSV''] \<and>
      files (snd (start self e w)) = files w) \<and>
   (\<not> is_set_first e \<and> ready self \<and>
    dataset (patient_dict_container w) (StrKey ''rtss'') = Some rtss \<and>
    dataset (patient_dict_container w) (StrKey ''rtdose'') = Some rtdose \<and>
    try_calc e rtss rtdose (get (patient_dict_container w) ''rois'')
      (dataset (patient_dict_container w)) = Inr raw_dvh \<and>
    is_set_second e \<longrightarrow>
      fst (start self e w) = Inr (PyBool False) \<and>
      is_empty (patient_dict_container (snd (start self e w))) \<and>
      progress (snd (start self e w)) =
        progress w @ [(''Checking dataset...'', 40), (''Calculating DVH...'', 60)] \<and>
      length (progress (snd (start self e w))) \<le> length (progress w) + 3 \<and>
      stdout (snd (start self e w)) = stdout w @ [''Stopped DVH2CSV''] \<and>
      files (snd (start self e w)) = files w)"
  by (simp add: start_def stopped_def Let_def)

text \<open>The sample patient, cancelled before the call and cancelled during the computation.\<close>

theorem start_cancelled_witness:
  "fst (start (sample_job True) (sample_env True False (Inr sample_dvh)) sample_world)
     = Inr (PyBool False) \<and>
   is_empty (patient_dict_container
     (snd (start (sample_job True) (sample_env True False (Inr sample_dvh)) sample_world))) \<and>
   progress (snd (start (sample_job True) (sample_env True False (Inr sample_dvh)) sample_world))
     = [] \<and>
   fst (start (sample_job True) (sample_env False True (Inr sample_dvh)) sample_world)
     = Inr (PyBool False) \<and>
   is_empty (patient_dict_container
     (snd (start (sample_job True) (sample_env False True (Inr sample_dvh)) sample_world))) \<and>
   progress (snd (start (sample_job True) (sample_env False True (Inr sample_dvh)) sample_world))
     = [(''Checking dataset...'', 40), (''Calculating DVH...'', 60)]"
proof -
  let ?a = "sample_env True False (Inr sample_dvh)"
  let ?b = "sample_env False True (Inr sample_dvh)"
  have flags: "is_set_first ?a" "\<not> is_set_first ?b" "is_set_second ?b"
    and r: "ready (sample_job True)"
    and p: "progress sample_world = []"
    by (simp_all add: sample_defs)
  have ds: "dataset (patient_dict_container sample_world) (StrKey ''rtss'') = Some sample_rtss"
    "dataset (patient_dict_container sample_world) (StrKey ''rtdose'') = Some sample_rtdose"
    by (simp_all add: sample_defs)
  have calc: "try_calc ?b sample_rtss sample_rtdose
                (get (patient_dict_container sample_world) ''rois'')
                (dataset (patient_dict_container sample_world)) = Inr sample_dvh"
    by (simp add: try_calc_def sample_env_def)
  from start_cancelled [of ?a "sample_job True" sample_world] flags p
  have first: "fst (start (sample_job True) ?a sample_world) = Inr (PyBool False) \<and>
      is_empty (patient_dict_container (snd (start (sample_job True) ?a sample_world))) \<and>
      progress (snd (start (sample_job True) ?a sample_world)) = []"
    by simp
  from start_cancelled [of ?b "sample_job True" sample_world sample_rtss sample_rtdose sample_dvh]
    flags r ds calc p
  have "fst (start (sample_job True) ?b sample_world) = Inr (PyBool False) \<and>
      is_empty (patient_dict_container (snd (start (sample_job True) ?b sample_world))) \<and>
      progress (snd (start (sample_job True) ?b sample_world)) =
        [(''Checking dataset...'', 40), (''Calculating DVH...'', 60)]"
    by simp
  with first show ?thesis by simp
qed

text \<open>
  C8: when a ready job is not cancelled and the body of the \<open>try\<close> raises \<open>TypeError\<close>,
  in the thickness map or in the DVH computation, \<open>start\<close> catches it, prints the
  message, returns \<open>None\<close> without raising, and leaves every file as it was.
\<close>

theorem start_type_error:
  assumes "\<not> is_set_first e" and "ready self"
    and "dataset (patient_dict_container w) (StrKey ''rtss'') = Some rtss"
    and "dataset (patient_dict_container w) (StrKey ''rtdose'') = Some rtdose"
    and "get_thickness_dict e rtss (dataset (patient_dict_container w)) = Inl TypeError \<or>
         (\<exists>t. get_thickness_dict e rtss (dataset (patient_dict_container w)) = Inr t \<and>
              calc_dvhs e rtss rtdose (get (patient_dict_container w) ''rois'') t
                = Inl TypeError)"
  shows "fst (start self e w) = Inr PyNone \<and>
         files (snd (start self e w)) = files w \<and>
         stdout (snd (start self e w)) =
           stdout w @ [''Error when calculating ROI thickness. The dataset may be ''
                       @ ''incomplete. \<newline>Skipping DVH2CSV.'']"
proof -
  from assms(5)
  have "try_calc e rtss rtdose (get (patient_dict_container w) ''rois'')
          (dataset (patient_dict_container w)) = Inl TypeError"
    by (auto simp: try_calc_def)
  with assms(1-4) show ?thesis
    by (simp add: start_def Let_def)
qed

text \<open>The sample patient with a DVH computation that raises \<open>TypeError\<close>.\<close>

theorem start_type_error_witness:
  "fst (start (sample_job True) (sample_env False False (Inl TypeError)) sample_world)
     = Inr PyNone \<and>
   files (snd (start (sample_job True) (sample_env False False (Inl TypeError)) sample_world))
     = files sample_world"
proof -
  let ?bad = "sample_env False False (Inl TypeError) :: (int, nat, unit) env"
  have "\<not> is_set_first ?bad" "ready (sample_job True)"
    "dataset (patient_dict_container sample_world) (StrKey ''rtss'') = Some sample_rtss"
    "dataset (patient_dict_container sample_world) (StrKey ''rtdose'') = Some sample_rtdose"
    "get_thickness_dict ?bad sample_rtss (dataset (patient_dict_container sample_world))
       = Inl TypeError \<or>
     (\<exists>t. get_thickness_dict ?bad sample_rtss (dataset (patient_dict_container sample_world))
            = Inr t \<and>
          calc_dvhs ?bad sample_rtss sample_rtdose
            (get (patient_dict_container sample_world) ''rois'') t = Inl TypeError)"
    by (simp_all add: sample_defs)
  from start_type_error [OF this] show ?thesis by simp
qed

text \<open>
  C1, as the code has it: \<open>start\<close> empties the store exactly on the runs that stop at one
  of the two polls of the interrupt flag, which are the runs that return \<open>False\<close>. Every
  other run leaves the store as it was: the run of a job that is not ready, the run whose
  computation raises, and the run that finishes the CSV export.
\<close>

theorem start_store:
  "patient_dict_container (snd (start self e w)) =
     (if fst (start self e w) = Inr (PyBool False) then clear (patient_dict_container w)
      else patient_dict_container w)"
  by (auto simp: start_def stopped_def Let_def export_store dest: export_value
           split: option.splits sum.splits if_splits)

text \<open>
  The theorem on the sample patient: the cancelled run ends with an empty store, the run
  that exports ends with the store it began with.
\<close>

theorem start_store_witness:
  "is_empty (patient_dict_container
     (snd (start (sample_job True) (sample_env True False (Inr sample_dvh)) sample_world))) \<and>
   patient_dict_container
     (snd (start (sample_job True) (sample_env False False (Inr sample_dvh)) sample_world))
     = sample_store"
proof -
  let ?a = "sample_env True False (Inr sample_dvh)"
  let ?ok = "sample_env False False (Inr sample_dvh)"
  have a: "fst (start (sample_job True) ?a sample_world) = Inr (PyBool False)"
    by code_simp
  have ok: "fst (start (sample_job True) ?ok sample_world) = Inr PyNone"
    by code_simp
  have s: "patient_dict_container sample_world = sample_store"
    by (simp add: sample_world_def)
  from start_store [of "sample_job True" ?a sample_world] a
  have "is_empty (patient_dict_container (snd (start (sample_job True) ?a sample_world)))"
    by simp
  moreover
  from start_store [of "sample_job True" ?ok sample_world] ok s
  have "patient_dict_container (snd (start (sample_job True) ?ok sample_world)) = sample_store"
    by simp
  ultimately show ?thesis by simp
qed

text \<open>
  C1 as stated fails: the sample job is ready and not cancelled, it returns after writing
  the header and two rows to the CSV file, and the store still holds the structure set.
\<close>

theorem start_store_counterexample:
  "fst (start (sample_job True) (sample_env False False (Inr sample_dvh)) sample_world)
     = Inr PyNone \<and>
   files (snd (start (sample_job True) (sample_env False False (Inr sample_dvh)) sample_world))
     [''out'', ''CSV'', ''DVHs_.csv'']
     = Some (File [[Str ''Patient ID'', Str ''ROI'', Str ''Volume (mL)'',
                    Str ''0cGy'', Str ''10cGy'', Str ''20cGy''],
                   [Str ''P1'', Str ''PTV'', Num 51, Num 100, Num 90, Num 80],
                   [Str ''P1'', Str ''CORD'', Num 7, Num 60, Num 0, Num 0]]) \<and>
   \<not> is_empty (patient_dict_container
     (snd (start (sample_job True) (sample_env False False (Inr sample_dvh)) sample_world)))"
proof -
  let ?w = "snd (start (sample_job True) (sample_env False False (Inr sample_dvh)) sample_world)"
  have "dataset (patient_dict_container ?w) (StrKey ''rtss'') = Some sample_rtss"
    by code_simp
  then have "\<not> is_empty (patient_dict_container ?w)"
    using is_empty_dataset [of "patient_dict_container ?w" "StrKey ''rtss''"] by auto
  moreover
  have "fst (start (sample_job True) (sample_env False False (Inr sample_dvh)) sample_world)
          = Inr PyNone"
    by code_simp
  moreover
  have "files ?w [''out'', ''CSV'', ''DVHs_.csv'']
     = Some (File [[Str ''Patient ID'', Str ''ROI'', Str ''Volume (mL)'',
                    Str ''0cGy'', Str ''10cGy'', Str ''20cGy''],
                   [Str ''P1'', Str ''PTV'', Num 51, Num 100, Num 90, Num 80],
                   [Str ''P1'', Str ''CORD'', Num 7, Num 60, Num 0, Num 0]])"
    by code_simp
  ultimately show ?thesis by simp
qed

text \<open>
  C2, as the code has it: a job that is not ready never emits a progress report, never
  touches a file and never returns a truthy value. When the interrupt flag is not set,
  \<open>start\<close> returns \<open>None\<close> and changes nothing at all. When the flag is set, the poll
  comes before the test of readiness: \<open>start\<close> prints the stopped notice, empties the
  store and returns \<open>False\<close>.
\<close>

theorem start_not_ready:
  assumes "\<not> ready self"
  shows "progress (snd (start self e w)) = progress w \<and>
         files (snd (start self e w)) = files w \<and>
         (\<exists>v. fst (start self e w) = Inr v \<and> \<not> truthy v) \<and>
         (\<not> is_set_first e \<longrightarrow> start self e w = (Inr PyNone, w)) \<and>
         (is_set_first e \<longrightarrow>
            fst (start self e w) = Inr (PyBool False) \<and>
            patient_dict_container (snd (start self e w)) = clear (patient_dict_container w) \<and>
            stdout (snd (start self e w)) = stdout w @ [''Stopped DVH2CSV''])"
  using assms by (simp add: start_def stopped_def)

text \<open>The sample patient with a job that is not ready, flag clear and flag set.\<close>

theorem start_not_ready_witness:
  "start (sample_job False) (sample_env False False (Inr sample_dvh)) sample_world
     = (Inr PyNone, sample_world) \<and>
   fst (start (sample_job False) (sample_env True False (Inr sample_dvh)) sample_world)
     = Inr (PyBool False) \<and>
   is_empty (patient_dict_container
     (snd (start (sample_job False) (sample_env True False (Inr sample_dvh)) sample_world)))"
proof -
  let ?off = "sample_env False False (Inr sample_dvh)"
  let ?on = "sample_env True False (Inr sample_dvh)"
  have r: "\<not> ready (sample_job False)"
    and flags: "\<not> is_set_first ?off" "is_set_first ?on"
    by (simp_all add: sample_defs)
  from start_not_ready [OF r, of ?off sample_world] flags
  have "start (sample_job False) ?off sample_world = (Inr PyNone, sample_world)"
    by blast
  moreover
  from start_not_ready [OF r, of ?on sample_world] flags
  have "fst (start (sample_job False) ?on sample_world) = Inr (PyBool False) \<and>
        is_empty (patient_dict_container (snd (start (sample_job False) ?on sample_world)))"
    by simp
  ultimately show ?thesis by simp
qed

text \<open>
  C2 as stated fails: with the flag set, the job that is not ready returns \<open>False\<close> and
  the store, which held the structure set before the call, holds nothing after it.
\<close>

theorem start_not_ready_counterexample:
  "\<not> ready (sample_job False) \<and>
   dataset (patient_dict_container sample_world) (StrKey ''rtss'') = Some sample_rtss \<and>
   dataset (patient_dict_container
       (snd (start (sample_job False) (sample_env True False (Inr sample_dvh)) sample_world)))
     (StrKey ''rtss'') = None \<and>
   patient_dict_container
       (snd (start (sample_job False) (sample_env True False (Inr sample_dvh)) sample_world))
     \<noteq> patient_dict_container sample_world"
proof -
  let ?w = "snd (start (sample_job False) (sample_env True False (Inr sample_dvh)) sample_world)"
  have a: "\<not> ready (sample_job False)"
    and b: "dataset (patient_dict_container sample_world) (StrKey ''rtss'') = Some sample_rtss"
    by (simp_all add: sample_defs)
  have c: "dataset (patient_dict_container ?w) (StrKey ''rtss'') = None"
    by (simp add: start_def stopped_def clear_def sample_env_def)
  from b c have "patient_dict_container ?w \<noteq> patient_dict_container sample_world"
    by auto
  with a b c show ?thesis by simp
qed

section \<open>Properties of the CSV writer\<close>


lemma sample_fold:
  "foldl (\<lambda>(dvh_roi_list, max_roi_dose) i.
              (dvh_roi_list @ [Num (dose ! i)],
               if i > max_roi_dose then i else max_roi_dose)) (row, m) idx
   = (row @ map (\<lambda>i. Num (dose ! i)) idx, foldl max m idx)"
  by (induction idx arbitrary: row m) (auto simp: max_def)

lemma foldl_max_range: "foldl max m (map (\<lambda>k. k * 10) [0..<n]) = max m (10 * (n - 1))"
  by (induction n) (auto simp: max_def)

lemma length_stride10: "length (stride10 xs) = (length xs + 9) div 10"
  by (simp add: stride10_def)

lemma py_range_10: "py_range n 10 = map (\<lambda>k. k * 10) [0..<(n + 9) div 10]"
  by (simp add: py_range_def add.commute)

lemma stride10_range: "map (\<lambda>i. Num (dose ! i)) (py_range (length dose) 10) = map Num (stride10 dose)"
  by (simp add: py_range_10 stride10_def comp_def mult.commute)

lemma sample_loop_eq:
  "sample_loop dose (row, m) =
     (row @ map Num (stride10 dose), max m (10 * (length (stride10 dose) - 1)))"
proof -
  have "foldl max m (py_range (length dose) 10) = max m (10 * (length (stride10 dose) - 1))"
    by (simp only: py_range_10 foldl_max_range length_stride10)
  then show ?thesis
    by (simp only: sample_loop_def sample_fold stride10_range)
qed

lemma max_samples_Cons:
  "max_samples ((i, dvh) # dict_dvh) = max (length (stride10 (dvh_counts dvh))) (max_samples dict_dvh)"
  by (simp add: max_samples_def)

lemma max_pred: "max (max (m::nat) (10 * (a - 1))) (10 * (b - 1)) = max m (10 * (max a b - 1))"
  by (cases "a \<le> b") (auto simp: max_def)

lemma roi_fold:
  "foldl (\<lambda>(dvh_csv_list, max_roi_dose) (i, dvh).
              (let (dvh_roi_list, m) =
                     sample_loop (dvh_counts dvh)
                       ([Str patient_id, Str (dvh_name dvh), Num (dvh_volume dvh)],
                        max_roi_dose)
               in (dvh_csv_list @ [dvh_roi_list], m))) (rows, m0) dict_dvh
   = (rows @ map (\<lambda>(i, dvh). raw_row patient_id dvh) dict_dvh, max m0 (10 * (max_samples dict_dvh - 1)))"
  (is "foldl ?G _ _ = _")
proof (induction dict_dvh arbitrary: rows m0)
  case Nil
  then show ?case by (simp add: max_samples_def)
next
  case (Cons a dict_dvh)
  obtain i dvh where a: "a = (i, dvh)" by (cases a)
  have step: "?G (rows, m0) a =
      (rows @ [raw_row patient_id dvh], max m0 (10 * (length (stride10 (dvh_counts dvh)) - 1)))"
    by (simp add: a sample_loop_eq raw_row_def)
  have "foldl ?G (rows, m0) (a # dict_dvh) = foldl ?G (?G (rows, m0) a) dict_dvh"
    by (rule foldl_Cons)
  also have "\<dots> = foldl ?G (rows @ [raw_row patient_id dvh],
                 max m0 (10 * (length (stride10 (dvh_counts dvh)) - 1))) dict_dvh"
    by (simp only: step)
  also have "\<dots> = ((rows @ [raw_row patient_id dvh]) @ map (\<lambda>(i, dvh). raw_row patient_id dvh) dict_dvh,
       max (max m0 (10 * (length (stride10 (dvh_counts dvh)) - 1))) (10 * (max_samples dict_dvh - 1)))"
    by (rule Cons.IH)
  also have "\<dots> = (rows @ map (\<lambda>(i, dvh). raw_row patient_id dvh) (a # dict_dvh),
        max m0 (10 * (max_samples (a # dict_dvh) - 1)))"
    by (simp only: max_pred a max_samples_Cons) simp
  finally show ?case .
qed

lemma roi_loop_eq:
  "roi_loop patient_id dict_dvh =
     (map (\<lambda>(i, dvh). raw_row patient_id dvh) dict_dvh, 10 * (max_samples dict_dvh - 1))"
  by (simp only: roi_loop_def roi_fold) simp

lemma csv_header_eq:
  "csv_header (10 * m) = [''Patient ID'', ''ROI'', ''Volume (mL)''] @ dose_labels (Suc m)"
proof -
  have "(10 * m + 1 + 9) div 10 = Suc m" by simp
  then have "py_range (10 * m + 1) 10 = map (\<lambda>k. k * 10) [0..<Suc m]"
    by (simp only: py_range_10)
  then show ?thesis
    by (simp add: csv_header_def dose_labels_def comp_def mult.commute)
qed

lemma length_raw_row: "length (raw_row pid dvh) = 3 + length (stride10 (dvh_counts dvh))"
  by (simp add: raw_row_def)

lemma width_raw_rows:
  "dict_dvh \<noteq> [] \<Longrightarrow>
   foldr max (map length (map (\<lambda>(i, dvh). raw_row pid dvh) dict_dvh)) 0 = 3 + max_samples dict_dvh"
proof (induction dict_dvh)
  case Nil
  then show ?case by simp
next
  case (Cons a dict_dvh)
  obtain i dvh where a: "a = (i, dvh)" by (cases a)
  show ?case
  proof (cases "dict_dvh = []")
    case True
    then show ?thesis by (simp add: a length_raw_row max_samples_def)
  next
    case False
    with Cons.IH show ?thesis
      by (simp add: a length_raw_row max_samples_Cons)
  qed
qed

lemma length_dose_labels: "length (dose_labels n) = n"
  by (simp add: dose_labels_def)

lemma dvh2csv_eq:
  "dvh2csv rnd z dict_dvh path csv_name patient_id fs =
     (if dict_dvh \<noteq> [] \<and> max_samples dict_dvh = 0 then Inl ValueError
      else to_csv \<lparr>columns = [''Patient ID'', ''ROI'', ''Volume (mL)'']
                               @ dose_labels (Suc (max_samples dict_dvh - 1)),
                    frame_rows = csv_rows rnd z patient_id dict_dvh\<rparr>
             fs (joinpath path csv_name) (\<not> os_path_isfile fs (joinpath path csv_name)))"
proof (cases "dict_dvh = []")
  case True
  then show ?thesis
    by (simp add: dvh2csv_def roi_loop_eq DataFrame_def csv_header_eq fillna_def
          round_frame_def csv_rows_def Let_def)
next
  case False
  let ?M = "max_samples dict_dvh"
  have w: "foldr max (map length (map (\<lambda>(i, dvh). raw_row patient_id dvh) dict_dvh)) 0 = 3 + ?M"
    using False by (rule width_raw_rows)
  have len: "length (csv_header (10 * (?M - 1))) = 3 + Suc (?M - 1)"
    by (simp add: csv_header_eq length_dose_labels)
  show ?thesis
  proof (cases "?M = 0")
    case True
    with False w len show ?thesis
      by (simp add: dvh2csv_def roi_loop_eq DataFrame_def Let_def)
  next
    case nz: False
    have rows: "map (map (fill_cell z)) (map (map (round_cell rnd))
        (map (\<lambda>row. row @ replicate (3 + ?M - length row) NaN)
           (map (\<lambda>(i, dvh). raw_row patient_id dvh) dict_dvh)))
       = csv_rows rnd z patient_id dict_dvh"
      by (simp add: csv_rows_def comp_def case_prod_unfold raw_row_def csv_row_def)
    from nz have "length (csv_header (10 * (?M - 1))) = 3 + ?M"
      using len by simp
    with False nz w rows show ?thesis
      by (simp add: dvh2csv_def roi_loop_eq DataFrame_def Let_def fillna_def round_frame_def
            csv_header_eq)
  qed
qed




lemma to_csv_new:
  "fs tar_path = None \<Longrightarrow> os_path_isdir fs (butlast tar_path) \<Longrightarrow>
   to_csv df fs tar_path (\<not> os_path_isfile fs tar_path)
     = Inr (fs(tar_path \<mapsto> File (map Str (columns df) # frame_rows df)))"
  by (simp add: to_csv_def os_path_isfile_def)

lemma to_csv_append:
  "fs tar_path = Some (File old) \<Longrightarrow>
   to_csv df fs tar_path (\<not> os_path_isfile fs tar_path)
     = Inr (fs(tar_path \<mapsto> File (old @ frame_rows df)))"
  by (simp add: to_csv_def os_path_isfile_def)


lemma sample_eval:
  "max_samples sample_dvh = 3"
  "csv_rows sample_round 0 ''P1'' sample_dvh = sample_rows"
  "header_line 3 = sample_head"
  by code_simp+




text \<open>
  C6: a call that returns has written the header if and only if the target was not there:
  a target that did not exist holds the header line and then one row for each record; a
  file that existed holds its old lines, whatever they were, and then one row for each
  record, with no header line among them. Nothing else in the file system changes. The
  target cannot have been a directory.
\<close>

theorem dvh2csv_header:
  assumes "dvh2csv rnd z dict_dvh path csv_name patient_id fs = Inr fs'"
  shows "(fs (joinpath path csv_name) = None \<longrightarrow>
            fs' (joinpath path csv_name) =
              Some (File (header_line (Suc (max_samples dict_dvh - 1))
                          # csv_rows rnd z patient_id dict_dvh))) \<and>
         (\<forall>old. fs (joinpath path csv_name) = Some (File old) \<longrightarrow>
            fs' (joinpath path csv_name) =
              Some (File (old @ csv_rows rnd z patient_id dict_dvh))) \<and>
         (fs (joinpath path csv_name) = None \<or>
          (\<exists>old. fs (joinpath path csv_name) = Some (File old))) \<and>
         length (csv_rows rnd z patient_id dict_dvh) = length dict_dvh \<and>
         (\<forall>p. p \<noteq> joinpath path csv_name \<longrightarrow> fs' p = fs p)"
  using assms
  by (auto simp: dvh2csv_eq to_csv_def os_path_isfile_def header_line_def csv_rows_def
           split: if_splits option.splits node.splits)

text \<open>
  Two exports of the sample records to the same file: the first creates it with the
  header, the second adds its two rows after the three lines that were there.
\<close>

theorem dvh2csv_header_witness:
  "(\<exists>fs1 fs2.
      dvh2csv sample_round 0 sample_dvh [''out'', ''CSV''] ''DVHs_.csv'' ''P1'' sample_files
        = Inr fs1 \<and>
      fs1 [''out'', ''CSV'', ''DVHs_.csv''] = Some (File sample_csv) \<and>
      dvh2csv sample_round 0 sample_dvh [''out'', ''CSV''] ''DVHs_.csv'' ''P1'' fs1 = Inr fs2 \<and>
      fs2 [''out'', ''CSV'', ''DVHs_.csv''] = Some (File (sample_csv @ sample_rows)))"
proof -
  let ?tar = "[''out'', ''CSV'', ''DVHs_.csv'']"
  let ?call = "dvh2csv sample_round 0 sample_dvh [''out'', ''CSV''] ''DVHs_.csv'' ''P1''"
  have tar: "joinpath [''out'', ''CSV''] ''DVHs_.csv'' = ?tar"
    by (simp add: joinpath_def)
  have nz: "\<not> (sample_dvh \<noteq> [] \<and> max_samples sample_dvh = 0)"
    by (simp add: sample_eval)
  have fresh: "sample_files ?tar = None" and dir: "os_path_isdir sample_files (butlast ?tar)"
    by (simp_all add: sample_files_def os_path_isdir_def)
  obtain fs1 where one: "?call sample_files = Inr fs1"
    using nz fresh dir by (simp add: dvh2csv_eq tar to_csv_new)
  have three: "Suc (max_samples sample_dvh - 1) = 3"
    by (simp add: sample_eval)
  from dvh2csv_header [OF one] fresh
  have c1: "fs1 ?tar = Some (File sample_csv)"
    by (simp add: tar three sample_eval sample_csv_def)
  obtain fs2 where two: "?call fs1 = Inr fs2"
    using nz c1 by (simp add: dvh2csv_eq tar to_csv_append)
  from dvh2csv_header [OF two] c1
  have c2: "fs2 ?tar = Some (File (sample_csv @ sample_rows))"
    by (simp add: tar sample_eval)
  from one c1 two c2 show ?thesis by blast
qed

section \<open>Properties of the natural sort\<close>

lemma convert_digits: "isdigit t \<Longrightarrow> convert t = CInt (int_of_digits t)"
  by (simp add: convert_def)

lemma convert_text: "\<not> isdigit t \<Longrightarrow> convert t = CStr (lower t)"
  by (simp add: convert_def)

lemma not_isdigit_text: "\<not> isdigit (takeWhile (\<lambda>c. \<not> is_digit c) s)"
proof (cases "takeWhile (\<lambda>c. \<not> is_digit c) s")
  case Nil
  then show ?thesis by (simp add: isdigit_def)
next
  case (Cons c cs)
  then have "c \<in> set (takeWhile (\<lambda>c. \<not> is_digit c) s)" by simp
  then have "\<not> is_digit c" by (rule set_takeWhileD [THEN conjunct2])
  with Cons show ?thesis by (simp add: isdigit_def)
qed

lemma digit_rest: "dropWhile (\<lambda>c. \<not> is_digit c) s \<noteq> [] \<Longrightarrow> is_digit (hd (dropWhile (\<lambda>c. \<not> is_digit c) s))"
  using hd_dropWhile [of "\<lambda>c. \<not> is_digit c" s] by simp

lemma isdigit_run: "r \<noteq> [] \<Longrightarrow> is_digit (hd r) \<Longrightarrow> isdigit (takeWhile is_digit r)"
  by (cases r) (auto simp: isdigit_def list_all_iff dest: set_takeWhileD)

lemma re_split_digits_unfold:
  "re_split_digits s =
     (if dropWhile (\<lambda>c. \<not> is_digit c) s = [] then [takeWhile (\<lambda>c. \<not> is_digit c) s]
      else takeWhile (\<lambda>c. \<not> is_digit c) s #
           takeWhile is_digit (dropWhile (\<lambda>c. \<not> is_digit c) s) #
           re_split_digits (dropWhile is_digit (dropWhile (\<lambda>c. \<not> is_digit c) s)))"
  by (subst re_split_digits.simps) (simp add: Let_def)

lemma alphanum_key_unfold:
  "alphanum_key s =
     CStr (lower (takeWhile (\<lambda>c. \<not> is_digit c) s)) #
     (if dropWhile (\<lambda>c. \<not> is_digit c) s = [] then []
      else CInt (int_of_digits (takeWhile is_digit (dropWhile (\<lambda>c. \<not> is_digit c) s))) #
           alphanum_key (dropWhile is_digit (dropWhile (\<lambda>c. \<not> is_digit c) s)))"
proof -
  let ?rest = "dropWhile (\<lambda>c. \<not> is_digit c) s"
  have "alphanum_key s = map convert (re_split_digits s)"
    by (simp add: alphanum_key_def)
  also have "\<dots> = convert (takeWhile (\<lambda>c. \<not> is_digit c) s) #
     (if ?rest = [] then []
      else convert (takeWhile is_digit ?rest) # alphanum_key (dropWhile is_digit ?rest))"
    by (subst re_split_digits_unfold) (simp add: alphanum_key_def)
  also have "\<dots> = CStr (lower (takeWhile (\<lambda>c. \<not> is_digit c) s)) #
     (if ?rest = [] then []
      else CInt (int_of_digits (takeWhile is_digit ?rest)) #
           alphanum_key (dropWhile is_digit ?rest))"
    by (simp add: convert_text not_isdigit_text convert_digits isdigit_run digit_rest)
  finally show ?thesis .
qed

lemma str_first_key: "str_first (alphanum_key s)"
proof (induction s rule: re_split_digits.induct)
  case (1 s)
  show ?case
    by (subst alphanum_key_unfold) (use 1 in auto)
qed

lemma list_lt_total:
  "(str_first xs \<and> str_first ys \<longrightarrow> (\<exists>r. list_lt xs ys = Inr r)) \<and>
   (int_first xs \<and> int_first ys \<longrightarrow> (\<exists>r. list_lt xs ys = Inr r))"
proof (induction xs ys rule: list_lt.induct)
  case (4 x xs y ys)
  then show ?case
    by (cases x; cases y) auto
qed auto























lemma key_lt_total: "\<exists>r. list_lt (alphanum_key a) (alphanum_key b) = Inr r"
  using list_lt_total [of "alphanum_key a" "alphanum_key b"] by (simp add: str_first_key)

lemma insort_natural_total:
  "\<exists>zs. insort_natural x ys = Inr zs \<and> set zs = insert x (set ys) \<and> length zs = Suc (length ys)"
proof (induction ys)
  case Nil
  show ?case by simp
next
  case (Cons y ys)
  obtain r where r: "list_lt (alphanum_key y) (alphanum_key x) = Inr r"
    using key_lt_total by blast
  from Cons obtain zs where "insort_natural x ys = Inr zs" "set zs = insert x (set ys)"
    "length zs = Suc (length ys)" by blast
  with r show ?case by (cases r) auto
qed

lemma natural_sort_total:
  "\<exists>zs. natural_sort xs = Inr zs \<and> set zs = set xs \<and> length zs = length xs"
proof (induction xs)
  case Nil
  show ?case by simp
next
  case (Cons x xs)
  then obtain ys where ys: "natural_sort xs = Inr ys" "set ys = set xs" "length ys = length xs"
    by blast
  obtain zs where "insort_natural x ys = Inr zs" "set zs = insert x (set ys)"
    "length zs = Suc (length ys)"
    using insort_natural_total by blast
  with ys show ?case by simp
qed










section \<open>Properties of discovery\<close>

lemma for_files_skip: "\<not> candidate d f \<Longrightarrow> for_files d (f # fl) st = for_files d fl st"
  by simp

lemma for_files_unreadable:
  "unreadable d f \<Longrightarrow>
   for_files d (f # fl) st =
     for_files d fl (st\<lparr>printed := printed st @ [''ERROR: Cannot read file '' @ f]\<rparr>)"
  by (simp add: unreadable_def)

lemma for_files_store:
  "accepted d m f \<Longrightarrow>
   for_files d (f # fl) st = for_files d fl (store_file f (the (dcmread d f)) m st)"
  by (auto simp: accepted_def split: option.splits)

lemma candidate_cases:
  "\<not> candidate d f \<or> unreadable d f \<or> (\<exists>m. accepted d m f) \<or>
   (candidate d f \<and> (\<exists>ds. dcmread d f = Some ds \<and> Modality ds = None))"
  by (auto simp: unreadable_def accepted_def split: option.splits)

lemma for_files_no_modality:
  "candidate d f \<Longrightarrow> dcmread d f = Some ds \<Longrightarrow> Modality ds = None \<Longrightarrow>
   for_files d (f # fl) st = Inl AttributeError"
  by simp

lemma accepted_unique: "accepted d m f \<Longrightarrow> accepted d m' f = (m' = m)"
  by (auto simp: accepted_def split: option.splits)

lemma accepted_not_unreadable: "accepted d m f \<Longrightarrow> \<not> unreadable d f"
  by (auto simp: accepted_def unreadable_def split: option.splits)

lemma unreadable_not_accepted: "unreadable d f \<Longrightarrow> \<not> accepted d m f"
  by (auto simp: accepted_def unreadable_def split: option.splits)

lemma not_candidate: "\<not> candidate d f \<Longrightarrow> \<not> accepted d m f \<and> \<not> unreadable d f"
  by (auto simp: accepted_def unreadable_def)

lemma store_file_fields:
  "next_i (store_file f ds m st) = (if m = ''CT'' then next_i st + 1 else next_i st)"
  "printed (store_file f ds m st) = printed st"
  "file_names_dict (store_file f ds m st) (IntKey k) =
     (if m = ''CT'' \<and> k = next_i st then Some f else file_names_dict st (IntKey k))"
  "read_data_dict (store_file f ds m st) (IntKey k) =
     (if m = ''CT'' \<and> k = next_i st then Some ds else read_data_dict st (IntKey k))"
  "file_names_dict (store_file f ds m st) (StrKey l) =
     (if label_modality l = Some m then Some f else file_names_dict st (StrKey l))"
  "read_data_dict (store_file f ds m st) (StrKey l) =
     (if label_modality l = Some m then Some ds else read_data_dict st (StrKey l))"
  by (auto simp: store_file_def label_modality_def)

lemma accepted_dcmread: "accepted d m f \<Longrightarrow> dcmread d f = Some (the (dcmread d f))"
  by (auto simp: accepted_def split: option.splits)

lemma for_files_cases:
  assumes "for_files d (f # fl) st = Inr st'"
  obtains (skip) "\<not> candidate d f" "for_files d fl st = Inr st'"
  | (unread) "unreadable d f"
      "for_files d fl (st\<lparr>printed := printed st @ [''ERROR: Cannot read file '' @ f]\<rparr>) = Inr st'"
  | (store) m where "accepted d m f"
      "for_files d fl (store_file f (the (dcmread d f)) m st) = Inr st'"
proof -
  from candidate_cases [of d f] show ?thesis
  proof (elim disjE exE conjE)
    assume "\<not> candidate d f"
    with assms skip show ?thesis by simp
  next
    assume u: "unreadable d f"
    with assms unread show ?thesis by (simp only: for_files_unreadable)
  next
    fix m assume a: "accepted d m f"
    with assms store show ?thesis by (simp only: for_files_store)
  next
    fix ds assume "candidate d f" "dcmread d f = Some ds" "Modality ds = None"
    with assms show ?thesis by simp
  qed
qed

lemma for_files_next_i:
  "for_files d fl st = Inr st' \<Longrightarrow>
   next_i st' = next_i st + length (filter (accepted d ''CT'') fl)"
proof (induction fl arbitrary: st)
  case Nil
  then show ?case by simp
next
  case (Cons f fl)
  from Cons.prems show ?case
  proof (cases rule: for_files_cases)
    case skip
    with Cons.IH show ?thesis by (simp add: not_candidate)
  next
    case unread
    from Cons.IH [OF unread(2)] unread(1) show ?thesis
      by (simp add: unreadable_not_accepted)
  next
    case (store m)
    from Cons.IH [OF store(2)] store(1) show ?thesis
      by (simp add: store_file_fields accepted_unique)
  qed
qed

lemma for_files_printed:
  "for_files d fl st = Inr st' \<Longrightarrow>
   printed st' =
     printed st @ map (\<lambda>f. ''ERROR: Cannot read file '' @ f) (filter (unreadable d) fl)"
proof (induction fl arbitrary: st)
  case Nil
  then show ?case by simp
next
  case (Cons f fl)
  from Cons.prems show ?case
  proof (cases rule: for_files_cases)
    case skip
    with Cons.IH show ?thesis by (simp add: not_candidate)
  next
    case unread
    from Cons.IH [OF unread(2)] unread(1) show ?thesis by simp
  next
    case (store m)
    from Cons.IH [OF store(2)] store(1) show ?thesis
      by (simp add: store_file_fields accepted_not_unreadable)
  qed
qed

lemma for_files_int:
  "for_files d fl st = Inr st' \<Longrightarrow>
   file_names_dict st' (IntKey k) =
     (if next_i st \<le> k \<and> k < next_i st + length (filter (accepted d ''CT'') fl)
      then Some (filter (accepted d ''CT'') fl ! (k - next_i st))
      else file_names_dict st (IntKey k)) \<and>
   read_data_dict st' (IntKey k) =
     (if next_i st \<le> k \<and> k < next_i st + length (filter (accepted d ''CT'') fl)
      then dcmread d (filter (accepted d ''CT'') fl ! (k - next_i st))
      else read_data_dict st (IntKey k))"
proof (induction fl arbitrary: st)
  case Nil
  then show ?case by auto
next
  case (Cons f fl)
  from Cons.prems show ?case
  proof (cases rule: for_files_cases)
    case skip
    with Cons.IH show ?thesis by (simp add: not_candidate)
  next
    case unread
    from Cons.IH [OF unread(2)] unread(1) show ?thesis
      by (simp add: unreadable_not_accepted)
  next
    case (store m)
    show ?thesis
    proof (cases "m = ''CT''")
      case True
      with store(1) have a: "accepted d ''CT'' f" by simp
      from Cons.IH [OF store(2)] a accepted_dcmread [OF a] True show ?thesis
        by (auto simp: store_file_fields nth_Cons')
    next
      case False
      with store(1) have "\<not> accepted d ''CT'' f" by (simp add: accepted_unique)
      with Cons.IH [OF store(2)] False show ?thesis
        by (simp add: store_file_fields)
    qed
  qed
qed

lemma last_of_Cons: "last_of (f # fl) = (case last_of fl of None \<Rightarrow> Some f | Some g \<Rightarrow> Some g)"
  by (simp add: last_of_def)

lemma for_files_str:
  "for_files d fl st = Inr st' \<Longrightarrow>
   file_names_dict st' (StrKey l) =
     (case label_modality l of
        None \<Rightarrow> file_names_dict st (StrKey l)
      | Some m \<Rightarrow>
          (case last_of (filter (accepted d m) fl) of
             None \<Rightarrow> file_names_dict st (StrKey l)
           | Some f \<Rightarrow> Some f)) \<and>
   read_data_dict st' (StrKey l) =
     (case label_modality l of
        None \<Rightarrow> read_data_dict st (StrKey l)
      | Some m \<Rightarrow>
          (case last_of (filter (accepted d m) fl) of
             None \<Rightarrow> read_data_dict st (StrKey l)
           | Some f \<Rightarrow> dcmread d f))"
proof (induction fl arbitrary: st)
  case Nil
  then show ?case by (simp add: last_of_def split: option.splits)
next
  case (Cons f fl)
  from Cons.prems show ?case
  proof (cases rule: for_files_cases)
    case skip
    with Cons.IH [OF skip(2)] show ?thesis
      by (simp add: not_candidate split: option.splits)
  next
    case unread
    from Cons.IH [OF unread(2)] unread(1) show ?thesis
      by (simp add: unreadable_not_accepted split: option.splits)
  next
    case (store m)
    from Cons.IH [OF store(2)] store(1) accepted_dcmread [OF store(1)] show ?thesis
      by (auto simp: store_file_fields accepted_unique last_of_Cons split: option.splits)
  qed
qed

lemma for_files_total:
  "\<forall>f \<in> set fl. candidate d f \<longrightarrow> (\<forall>ds. dcmread d f = Some ds \<longrightarrow> Modality ds \<noteq> None) \<Longrightarrow>
   \<exists>st'. for_files d fl st = Inr st'"
proof (induction fl arbitrary: st)
  case Nil
  show ?case by simp
next
  case (Cons f fl)
  then show ?case
    by (cases "dcmread d f") auto
qed



lemma get_datasets_Inr:
  assumes "get_datasets d path = Inr st"
  obtains dcm_files where "natural_sort (glob d path) = Inr dcm_files"
    "set dcm_files = set (glob d path)"
    "for_files d dcm_files \<lparr>read_data_dict = Map.empty, file_names_dict = Map.empty, next_i = 0,
             printed = [''Natural Sorting...'']\<rparr> = Inr st"
proof -
  obtain dcm_files where s: "natural_sort (glob d path) = Inr dcm_files"
    "set dcm_files = set (glob d path)"
    using natural_sort_total by blast
  with assms that show ?thesis by (simp add: get_datasets_def)
qed

lemma accepted_readable: "accepted d m f \<Longrightarrow> dcmread d f \<noteq> None"
  by (auto simp: accepted_def split: option.splits)

lemma accepted_filter_nth:
  "k < length (filter (accepted d m) fl) \<Longrightarrow>
   dcmread d (filter (accepted d m) fl ! k) \<noteq> None \<and> accepted d m (filter (accepted d m) fl ! k)"
proof -
  assume "k < length (filter (accepted d m) fl)"
  then have "filter (accepted d m) fl ! k \<in> set (filter (accepted d m) fl)"
    by (rule nth_mem)
  then have a: "accepted d m (filter (accepted d m) fl ! k)" by simp
  from accepted_readable [OF a] a show ?thesis by blast
qed

lemma accepted_filter_last:
  "last_of (filter (accepted d m) fl) = Some f \<Longrightarrow> dcmread d f \<noteq> None \<and> accepted d m f"
proof -
  assume "last_of (filter (accepted d m) fl) = Some f"
  then have "filter (accepted d m) fl \<noteq> []" and "f = last (filter (accepted d m) fl)"
    by (auto simp: last_of_def split: if_splits)
  then have "f \<in> set (filter (accepted d m) fl)"
    using last_in_set by blast
  then have a: "accepted d m f" by simp
  from accepted_readable [OF a] a show ?thesis by blast
qed

lemma get_datasets_content:
  assumes "get_datasets d path = Inr st" and "natural_sort (glob d path) = Inr dcm_files"
  shows "file_names_dict st (IntKey k) = nth_of (filter (accepted d ''CT'') dcm_files) k"
    and "read_data_dict st (IntKey k) =
           (if k < length (filter (accepted d ''CT'') dcm_files)
            then dcmread d (filter (accepted d ''CT'') dcm_files ! k) else None)"
    and "file_names_dict st (StrKey l) =
           (case label_modality l of None \<Rightarrow> None
            | Some m \<Rightarrow> last_of (filter (accepted d m) dcm_files))"
    and "read_data_dict st (StrKey l) =
           (case label_modality l of None \<Rightarrow> None
            | Some m \<Rightarrow> (case last_of (filter (accepted d m) dcm_files) of
                           None \<Rightarrow> None | Some f \<Rightarrow> dcmread d f))"
    and "printed st = ''Natural Sorting...'' #
           map (\<lambda>f. ''ERROR: Cannot read file '' @ f) (filter (unreadable d) dcm_files)"
proof -
  let ?st0 = "\<lparr>read_data_dict = Map.empty, file_names_dict = Map.empty, next_i = 0,
             printed = [''Natural Sorting...'']\<rparr>"
  from assms have run: "for_files d dcm_files ?st0 = Inr st"
    by (simp add: get_datasets_def)
  from for_files_int [OF run, of k]
  show "file_names_dict st (IntKey k) = nth_of (filter (accepted d ''CT'') dcm_files) k"
    and "read_data_dict st (IntKey k) =
           (if k < length (filter (accepted d ''CT'') dcm_files)
            then dcmread d (filter (accepted d ''CT'') dcm_files ! k) else None)"
    by (simp_all add: nth_of_def)
  from for_files_str [OF run, of l]
  show "file_names_dict st (StrKey l) =
           (case label_modality l of None \<Rightarrow> None
            | Some m \<Rightarrow> last_of (filter (accepted d m) dcm_files))"
    and "read_data_dict st (StrKey l) =
           (case label_modality l of None \<Rightarrow> None
            | Some m \<Rightarrow> (case last_of (filter (accepted d m) dcm_files) of
                           None \<Rightarrow> None | Some f \<Rightarrow> dcmread d f))"
    by (simp_all split: option.splits)
  from for_files_printed [OF run]
  show "printed st = ''Natural Sorting...'' #
           map (\<lambda>f. ''ERROR: Cannot read file '' @ f) (filter (unreadable d) dcm_files)"
    by simp
qed

lemma get_datasets_same_keys:
  assumes "get_datasets d path = Inr st"
  shows "(read_data_dict st key = None) = (file_names_dict st key = None)"
proof -
  from assms obtain dcm_files where s: "natural_sort (glob d path) = Inr dcm_files"
    by (rule get_datasets_Inr)
  note c = get_datasets_content [OF assms s]
  show ?thesis
  proof (cases key)
    case (IntKey k)
    then show ?thesis
      using accepted_filter_nth [of k d "''CT''" dcm_files]
      by (simp add: c nth_of_def)
  next
    case (StrKey l)
    then show ?thesis
      using accepted_filter_last [of d _ dcm_files]
      by (auto simp: c split: option.splits)
  qed
qed


text \<open>
  C3: when discovery returns, the two dictionaries have the same keys. With the files
  of the directory in natural order, the file under the integer \<open>k\<close> is the \<open>k\<close>-th of
  those that are inspected and read as CT, so the integer keys are the numbers below the
  count of such files. Under each of the labels \<open>rtss\<close>, \<open>rtdose\<close>, \<open>rtplan\<close> is the last
  file, in that order, that is read with the modality of the label, and no other string is
  a key. Every stored file has one of the four modalities, and the dataset under its key
  is what the codec read from it.
\<close>

theorem get_datasets_keys:
  assumes "get_datasets d path = Inr st"
  shows "dom (read_data_dict st) = dom (file_names_dict st) \<and>
    (\<exists>dcm_files. natural_sort (glob d path) = Inr dcm_files \<and>
       (\<forall>k. file_names_dict st (IntKey k) = nth_of (filter (accepted d ''CT'') dcm_files) k) \<and>
       {k. IntKey k \<in> dom (file_names_dict st)}
          = {..<length (filter (accepted d ''CT'') dcm_files)} \<and>
       (\<forall>l. file_names_dict st (StrKey l) =
              (case label_modality l of None \<Rightarrow> None
               | Some m \<Rightarrow> last_of (filter (accepted d m) dcm_files))) \<and>
       (\<forall>key f. file_names_dict st key = Some f \<longrightarrow>
              read_data_dict st key = dcmread d f \<and>
              (accepted d ''CT'' f \<or> accepted d ''RTSTRUCT'' f \<or>
               accepted d ''RTDOSE'' f \<or> accepted d ''RTPLAN'' f)))"
proof -
  from assms obtain dcm_files where s: "natural_sort (glob d path) = Inr dcm_files"
    by (rule get_datasets_Inr)
  note c = get_datasets_content [OF assms s]
  have keys: "dom (read_data_dict st) = dom (file_names_dict st)"
    using get_datasets_same_keys [OF assms] by (auto simp: dom_def)
  have ints: "{k. IntKey k \<in> dom (file_names_dict st)}
          = {..<length (filter (accepted d ''CT'') dcm_files)}"
    by (auto simp: dom_def c nth_of_def split: if_splits)
  have vals: "\<forall>key f. file_names_dict st key = Some f \<longrightarrow>
              read_data_dict st key = dcmread d f \<and>
              (accepted d ''CT'' f \<or> accepted d ''RTSTRUCT'' f \<or>
               accepted d ''RTDOSE'' f \<or> accepted d ''RTPLAN'' f)"
  proof (intro allI impI)
    fix key f assume f: "file_names_dict st key = Some f"
    show "read_data_dict st key = dcmread d f \<and>
              (accepted d ''CT'' f \<or> accepted d ''RTSTRUCT'' f \<or>
               accepted d ''RTDOSE'' f \<or> accepted d ''RTPLAN'' f)"
    proof (cases key)
      case (IntKey k)
      with f show ?thesis
        using accepted_filter_nth [of k d "''CT''" dcm_files]
        by (auto simp: c nth_of_def split: if_splits)
    next
      case (StrKey l)
      with f show ?thesis
        using accepted_filter_last [of d _ dcm_files f]
        by (auto simp: c label_modality_def split: option.splits if_splits)
    qed
  qed
  from s keys ints vals show ?thesis
    by (auto simp: c)
qed

text \<open>
  The sample directory: the CT files get the keys 0, 1, 2 in the order \<open>CT1\<close>, \<open>CT2\<close>,
  \<open>CT10\<close>; the file \<open>CT9\<close> that holds an MR image gets none; of the two structure sets
  the later one, \<open>RS2\<close>, is kept.
\<close>

theorem get_datasets_keys_witness:
  "\<exists>st. get_datasets sample_disk ''d'' = Inr st \<and>
     dom (read_data_dict st) = dom (file_names_dict st) \<and>
     {k. IntKey k \<in> dom (file_names_dict st)} = {..<3} \<and>
     map (file_names_dict st) [IntKey 0, IntKey 1, IntKey 2, StrKey ''rtss'', StrKey ''other'']
       = [Some ''d/CT1.dcm'', Some ''d/CT2.dcm'', Some ''d/CT10.dcm'', Some ''d/RS2.dcm'', None]"
proof -
  have "(case get_datasets sample_disk ''d'' of Inl e \<Rightarrow> False | Inr st \<Rightarrow> True)"
    by code_simp
  then obtain st where st: "get_datasets sample_disk ''d'' = Inr st"
    by (cases "get_datasets sample_disk ''d''") auto
  have sorted: "natural_sort (glob sample_disk ''d'') = Inr sample_sorted"
    by code_simp
  have ct: "filter (accepted sample_disk ''CT'') sample_sorted
      = [''d/CT1.dcm'', ''d/CT2.dcm'', ''d/CT10.dcm'']"
    by code_simp
  have rs: "filter (accepted sample_disk ''RTSTRUCT'') sample_sorted
      = [''d/RS1.dcm'', ''d/RS2.dcm'']"
    by code_simp
  have lm: "label_modality ''rtss'' = Some ''RTSTRUCT''" "label_modality ''other'' = None"
    by code_simp+
  from get_datasets_keys [OF st] sorted
  have keys: "dom (read_data_dict st) = dom (file_names_dict st)"
    and ints: "\<And>k. file_names_dict st (IntKey k)
                 = nth_of (filter (accepted sample_disk ''CT'') sample_sorted) k"
    and range: "{k. IntKey k \<in> dom (file_names_dict st)}
                 = {..<length (filter (accepted sample_disk ''CT'') sample_sorted)}"
    and strs: "\<And>l. file_names_dict st (StrKey l) =
              (case label_modality l of None \<Rightarrow> None
               | Some m \<Rightarrow> last_of (filter (accepted sample_disk m) sample_sorted))"
    by auto
  have r3: "{k. IntKey k \<in> dom (file_names_dict st)} = {..<3}"
    by (simp only: range ct) simp
  have i0: "file_names_dict st (IntKey 0) = Some ''d/CT1.dcm''"
    and i1: "file_names_dict st (IntKey 1) = Some ''d/CT2.dcm''"
    and i2: "file_names_dict st (IntKey 2) = Some ''d/CT10.dcm''"
    by (simp_all only: ints ct nth_of_def) simp_all
  have s1: "file_names_dict st (StrKey ''rtss'') = Some ''d/RS2.dcm''"
    and s2: "file_names_dict st (StrKey ''other'') = None"
    by (simp_all only: strs lm) (simp_all add: rs last_of_def)
  from st keys r3 i0 i1 i2 s1 s2 show ?thesis by simp
qed





end
